theory Spec2Isabelle
  imports Complex_Main "HOL-Library.Multiset" "HOL-Library.List_Lexorder"
    "HOL-Library.Char_ord" "HOL-Library.Product_Lexorder"
begin

section \<open>modelmatcher: reading a PAML-formatted replacement model\<close>

text \<open>
  The development follows \<^verbatim>\<open>modelmatcher/model_io.py\<close>. Its one function,
  \<^verbatim>\<open>read_model(h, model_name)\<close>, iterates over the lines of a file handle,
  skips the lines starting with \<^verbatim>\<open>#\<close>, converts the tokens of every other line
  with \<^verbatim>\<open>float\<close>, collects the values of the lines with fewer than 20 tokens and
  stops at the first line with 20 tokens or more, which it takes as the frequencies.
\<close>

subsection \<open>Errors\<close>

text \<open>
  Exceptions are values. \<open>IOError\<close> is the exception the reader raises itself
  (the specification calls it \<^verbatim>\<open>FormatError\<close>); \<open>ValueError\<close> is what
  \<^verbatim>\<open>float\<close> raises on a token that is no number, \<open>IndexError\<close> what
  \<^verbatim>\<open>line[0]\<close> raises on an empty string. The remaining constructors are the
  error kinds of the specification's taxonomy for the rate-matrix core.
\<close>

datatype error =
    IOError string
  | ValueError
  | IndexError
  | MalformedModelError
  | UnknownModelError
  | NumericalInstabilityError
  | DegenerateInputError

subsection \<open>Strings: \<^verbatim>\<open>str.split()\<close>\<close>

text \<open>
  A character is a code point below 256. \<open>isspace\<close> is Python's
  \<^verbatim>\<open>str.isspace\<close> on that range: tab to carriage return, the four
  separators 28 to 31, the blank, NEL (133) and the no-break space (160).
\<close>

definition isspace :: "char \<Rightarrow> bool" where
  "isspace c =
     (let n = (of_char c :: nat)
      in (9 \<le> n \<and> n \<le> 13) \<or> (28 \<le> n \<and> n \<le> 32) \<or> n = 133 \<or> n = 160)"

text \<open>
  \<^verbatim>\<open>line.split()\<close> without arguments: runs of whitespace separate the tokens,
  leading and trailing whitespace gives no empty token. \<open>cur\<close> is the token being
  scanned.
\<close>

fun split_from :: "string \<Rightarrow> string \<Rightarrow> string list" where
  "split_from cur [] = (if cur = [] then [] else [cur])"
| "split_from cur (c # cs) =
     (if isspace c then (if cur = [] then split_from [] cs else cur # split_from [] cs)
      else split_from (cur @ [c]) cs)"

definition str_split :: "string \<Rightarrow> string list" where
  "str_split line = split_from [] line"

subsection \<open>The reader\<close>

text \<open>
  \<^verbatim>\<open>list(map(float, input_tokens))\<close>: the conversion \<open>pyfloat\<close> is a parameter
  (\<open>None\<close> where \<^verbatim>\<open>float\<close> raises \<^verbatim>\<open>ValueError\<close>); the first token that
  does not convert aborts the whole list.
\<close>

definition map_float :: "(string \<Rightarrow> 'v option) \<Rightarrow> string list \<Rightarrow> error + 'v list" where
  "map_float pyfloat input_tokens =
     (case those (map pyfloat input_tokens) of
        None \<Rightarrow> Inl ValueError
      | Some vals \<Rightarrow> Inr vals)"

text \<open>
  The \<^verbatim>\<open>for line in h: ... else: raise IOError(...)\<close> loop. The handle is the list
  of the lines still to be read, \<open>r_vals\<close> the values collected so far. On
  \<^verbatim>\<open>break\<close> the loop yields \<open>r_vals\<close>, \<open>freqs\<close> and the lines that were not
  read; running out of lines is the \<^verbatim>\<open>else\<close> branch of the loop.
\<close>

fun read_loop ::
  "(string \<Rightarrow> 'v option) \<Rightarrow> string list \<Rightarrow> 'v list \<Rightarrow> error + ('v list \<times> 'v list \<times> string list)"
where
  "read_loop pyfloat [] r_vals =
     Inl (IOError ''Is the input really a PAML-formatted model?'')"
| "read_loop pyfloat (line # h) r_vals =
     (case line of
        [] \<Rightarrow> Inl IndexError
      | c # _ \<Rightarrow>
          if c = CHR ''#'' then read_loop pyfloat h r_vals
          else
            let input_tokens = str_split line
            in (case map_float pyfloat input_tokens of
                  Inl e \<Rightarrow> Inl e
                | Inr vals \<Rightarrow>
                    if length input_tokens < 20 then read_loop pyfloat h (r_vals @ vals)
                    else Inr (r_vals, vals, h)))"

text \<open>
  \<^verbatim>\<open>RateMatrix(model_name)\<close> and \<^verbatim>\<open>q.set_r_and_freq(r_vals, freqs)\<close> belong to
  \<^verbatim>\<open>modelmatcher.models\<close>; the reader only calls them, so they are the parameters
  \<open>RateMatrix\<close> and \<open>set_r_and_freq\<close>. The setter may raise, and returns the
  updated object.
\<close>

definition read_model ::
  "(string \<Rightarrow> 'v option) \<Rightarrow> (string \<Rightarrow> 'q) \<Rightarrow> ('q \<Rightarrow> 'v list \<Rightarrow> 'v list \<Rightarrow> error + 'q)
     \<Rightarrow> string list \<Rightarrow> string \<Rightarrow> error + 'q"
where
  "read_model pyfloat RateMatrix set_r_and_freq h model_name =
     (case read_loop pyfloat h [] of
        Inl e \<Rightarrow> Inl e
      | Inr (r_vals, freqs, _) \<Rightarrow> set_r_and_freq (RateMatrix model_name) r_vals freqs)"

text \<open>The notions the statements below use.\<close>

definition is_comment :: "string \<Rightarrow> bool" where
  "is_comment line = (case line of [] \<Rightarrow> False | c # _ \<Rightarrow> c = CHR ''#'')"

definition is_freq_line :: "string \<Rightarrow> bool" where
  "is_freq_line line = (\<not> is_comment line \<and> 20 \<le> length (str_split line))"

text \<open>
  A line converts when \<^verbatim>\<open>float\<close> accepts each of its tokens; its values are then
  the converted tokens, in order. The data lines of a stream are the lines that are not
  comments.
\<close>

definition convertible :: "(string \<Rightarrow> 'v option) \<Rightarrow> string \<Rightarrow> bool" where
  "convertible pyfloat line = list_all (\<lambda>t. pyfloat t \<noteq> None) (str_split line)"

definition line_values :: "(string \<Rightarrow> 'v option) \<Rightarrow> string \<Rightarrow> 'v list" where
  "line_values pyfloat line = map (\<lambda>t. the (pyfloat t)) (str_split line)"

definition data_lines :: "string list \<Rightarrow> string list" where
  "data_lines h = filter (\<lambda>line. \<not> is_comment line) h"

text \<open>What the loop hands on to \<^verbatim>\<open>set_r_and_freq\<close>: the unread lines are dropped.\<close>

definition outcome ::
  "error + ('v list \<times> 'v list \<times> string list) \<Rightarrow> error + ('v list \<times> 'v list)" where
  "outcome res = map_sum id (\<lambda>(r_vals, freqs, rest). (r_vals, freqs)) res"

subsection \<open>Instances of the parameters for concrete runs\<close>

text \<open>
  \<open>decimal_float\<close> is \<^verbatim>\<open>float\<close> on plain decimal literals: an optional sign,
  digits, and optionally a point followed by digits; the value is the literal's. Python
  accepts more (exponents, \<^verbatim>\<open>inf\<close>, \<^verbatim>\<open>nan\<close>, a leading or trailing point),
  so this conversion only stands for \<^verbatim>\<open>float\<close> on the literals it accepts and on
  tokens without any digit-like reading such as \<^verbatim>\<open>x\<close> and \<^verbatim>\<open>#\<close>, which both
  reject.
\<close>

definition digit_of :: "char \<Rightarrow> nat option" where
  "digit_of c =
     (let n = (of_char c :: nat) in if 48 \<le> n \<and> n \<le> 57 then Some (n - 48) else None)"

fun digits_from :: "nat \<Rightarrow> string \<Rightarrow> nat option" where
  "digits_from acc [] = Some acc"
| "digits_from acc (c # cs) =
     (case digit_of c of None \<Rightarrow> None | Some d \<Rightarrow> digits_from (10 * acc + d) cs)"

definition unsigned_decimal :: "string \<Rightarrow> real option" where
  "unsigned_decimal s =
     (let ip = takeWhile (\<lambda>c. c \<noteq> CHR ''.'') s; rest = dropWhile (\<lambda>c. c \<noteq> CHR ''.'') s
      in if ip = [] then None
         else (case rest of
                 [] \<Rightarrow> map_option real (digits_from 0 ip)
               | _ # fp \<Rightarrow>
                   if fp = [] then None
                   else map_option (\<lambda>n. real n / 10 ^ length fp) (digits_from 0 (ip @ fp))))"

definition decimal_float :: "string \<Rightarrow> real option" where
  "decimal_float s =
     (case s of
        [] \<Rightarrow> None
      | c # cs \<Rightarrow>
          if c = CHR ''-'' then map_option uminus (unsigned_decimal cs)
          else if c = CHR ''+'' then unsigned_decimal cs
          else unsigned_decimal s)"

text \<open>
  A rate matrix that only stores what it is given: the name, the exchangeability values
  and the frequencies. Its setter never raises.
\<close>

record stored_model =
  stored_name :: string
  stored_r_vals :: "real list"
  stored_freqs :: "real list"

definition new_stored_model :: "string \<Rightarrow> stored_model" where
  "new_stored_model model_name =
     \<lparr>stored_name = model_name, stored_r_vals = [], stored_freqs = []\<rparr>"

definition store_r_and_freq :: "stored_model \<Rightarrow> real list \<Rightarrow> real list \<Rightarrow> error + stored_model" where
  "store_r_and_freq q r_vals freqs = Inr (q\<lparr>stored_r_vals := r_vals, stored_freqs := freqs\<rparr>)"

lemmas run_defs =
  read_model_def map_float_def str_split_def isspace_def is_comment_def is_freq_line_def
  convertible_def line_values_def data_lines_def outcome_def
  decimal_float_def unsigned_decimal_def digit_of_def
  new_stored_model_def store_r_and_freq_def

section \<open>The rate-matrix core\<close>

text \<open>
  \<^verbatim>\<open>modelmatcher/models.py\<close>, the module of the class \<^verbatim>\<open>RateMatrix\<close>, is not
  among the source files at hand: only its caller \<^verbatim>\<open>read_model\<close> and the test
  \<^verbatim>\<open>tests/models_test.py\<close> are. The definitions of this section therefore follow the
  specification's words. Floating-point numbers are the reals here, and what the
  specification leaves to numerics or to chance (the log-likelihood, the transition
  matrix, the random draws, the table of named models, the tolerance) is a parameter.
\<close>

subsection \<open>Parameters of a model\<close>

text \<open>
  Modelled from the spec: the data of a \<^verbatim>\<open>RateMatrix\<close> (section 3), a model name, the
  alphabet size \<open>k\<close> fixed at construction, the flat lower-triangular sequence of
  exchangeabilities and the frequencies.
\<close>

record rate_matrix =
  rm_name :: string
  alphabet_size :: nat
  exchangeabilities :: "real list"
  frequencies :: "real list"

text \<open>
  Modelled from the spec: the constructor \<^verbatim>\<open>RateMatrix(name)\<close> of section 6, with
  the alphabet of the 20 amino acids and no parameters set yet.
\<close>

definition RateMatrix :: "string \<Rightarrow> rate_matrix" where
  "RateMatrix model_name =
     \<lparr>rm_name = model_name, alphabet_size = 20, exchangeabilities = [], frequencies = []\<rparr>"

text \<open>
  Modelled from the spec: \<^verbatim>\<open>set_r_and_freq(r_vals, freqs)\<close> of section 4.1. It fails
  with \<open>MalformedModelError\<close> if the length of \<open>r_vals\<close> is not \<open>k(k-1)/2\<close>, if the
  length of \<open>freqs\<close> is not \<open>k\<close>, if a frequency is negative, or if all frequencies are
  zero; frequencies whose sum is further than the tolerance \<open>tol\<close> from 1 are
  renormalized.
\<close>

definition set_r_and_freq ::
  "real \<Rightarrow> rate_matrix \<Rightarrow> real list \<Rightarrow> real list \<Rightarrow> error + rate_matrix" where
  "set_r_and_freq tol q r_vals freqs =
     (if length r_vals \<noteq> alphabet_size q * (alphabet_size q - 1) div 2
        then Inl MalformedModelError
      else if length freqs \<noteq> alphabet_size q then Inl MalformedModelError
      else if list_ex (\<lambda>f. f < 0) freqs then Inl MalformedModelError
      else if list_all (\<lambda>f. f = 0) freqs then Inl MalformedModelError
      else
        let s = sum_list freqs
        in Inr (q\<lparr>exchangeabilities := r_vals,
                  frequencies := (if tol < \<bar>s - 1\<bar> then map (\<lambda>f. f / s) freqs else freqs)\<rparr>))"

text \<open>
  Modelled from the spec: the invariants of a \<^verbatim>\<open>RateMatrix\<close> whose parameters are
  set (section 3): \<open>k(k-1)/2\<close> exchangeabilities and \<open>k\<close> frequencies, none negative, not
  all zero.
\<close>

definition valid_parameters :: "rate_matrix \<Rightarrow> bool" where
  "valid_parameters q =
     (length (exchangeabilities q) = alphabet_size q * (alphabet_size q - 1) div 2 \<and>
      length (frequencies q) = alphabet_size q \<and>
      list_all (\<lambda>f. 0 \<le> f) (frequencies q) \<and>
      \<not> list_all (\<lambda>f. f = 0) (frequencies q))"

subsection \<open>The rate matrix Q\<close>

text \<open>
  Modelled from the spec: the exchangeability of two symbols, read from the flat
  lower-triangular sequence (row \<open>i\<close> holds the \<open>i\<close> values for the columns below
  \<open>i\<close>) and symmetric in its arguments.
\<close>

definition exchangeability :: "rate_matrix \<Rightarrow> nat \<Rightarrow> nat \<Rightarrow> real" where
  "exchangeability q i j =
     (if j < i then exchangeabilities q ! (i * (i - 1) div 2 + j)
      else exchangeabilities q ! (j * (j - 1) div 2 + i))"

text \<open>
  Modelled from the spec: an entry of \<open>Q\<close> (section 3). Off the diagonal it is the
  exchangeability times the frequency of the column; the diagonal entry is set so that
  the row sums to zero.
\<close>

definition Q_entry :: "rate_matrix \<Rightarrow> nat \<Rightarrow> nat \<Rightarrow> real" where
  "Q_entry q i j =
     (if i = j
        then - (\<Sum>l\<leftarrow>filter (\<lambda>l. l \<noteq> i) [0..<alphabet_size q].
                  exchangeability q i l * frequencies q ! l)
      else exchangeability q i j * frequencies q ! j)"

text \<open>Modelled from the spec: \<^verbatim>\<open>build_Q()\<close> of section 4.1, the matrix as its rows.\<close>

definition build_Q :: "rate_matrix \<Rightarrow> real list list" where
  "build_Q q =
     map (\<lambda>i. map (\<lambda>j. Q_entry q i j) [0..<alphabet_size q]) [0..<alphabet_size q]"

subsection \<open>Scoring and ranking\<close>

text \<open>Modelled from the spec: a count matrix without any observation (section 4.4).\<close>

definition all_zero :: "nat list list \<Rightarrow> bool" where
  "all_zero count_matrix = list_all (list_all (\<lambda>c. c = 0)) count_matrix"

text \<open>
  Modelled from the spec: \<^verbatim>\<open>score(candidate_model, count_matrix)\<close> of section 4.4.
  The log-likelihood itself is the parameter \<open>loglik\<close>; an all-zero count matrix fails
  with \<open>DegenerateInputError\<close>.
\<close>

definition score ::
  "(rate_matrix \<Rightarrow> nat list list \<Rightarrow> real) \<Rightarrow> rate_matrix \<Rightarrow> nat list list \<Rightarrow> error + real" where
  "score loglik candidate_model count_matrix =
     (if all_zero count_matrix then Inl DegenerateInputError
      else Inr (loglik candidate_model count_matrix))"

text \<open>
  Modelled from the spec: scoring every candidate, in the order given. A score result
  associates the model name with the score (section 3); an error of \<open>score\<close> is passed
  on to the caller (section 7).
\<close>

fun score_all ::
  "(rate_matrix \<Rightarrow> nat list list \<Rightarrow> real) \<Rightarrow> rate_matrix list \<Rightarrow> nat list list
     \<Rightarrow> error + (string \<times> real) list" where
  "score_all loglik [] count_matrix = Inr []"
| "score_all loglik (q # qs) count_matrix =
     (case score loglik q count_matrix of
        Inl e \<Rightarrow> Inl e
      | Inr s \<Rightarrow>
          (case score_all loglik qs count_matrix of
             Inl e \<Rightarrow> Inl e
           | Inr rs \<Rightarrow> Inr ((rm_name q, s) # rs)))"

text \<open>
  Modelled from the spec: the order of \<^verbatim>\<open>rank\<close>, descending score first and the
  model name second. Pairs are compared lexicographically, names as strings of code
  points.
\<close>

definition rank_key :: "string \<times> real \<Rightarrow> real \<times> string" where
  "rank_key r = (- snd r, fst r)"

text \<open>Modelled from the spec: \<^verbatim>\<open>rank(candidate_models, count_matrix)\<close> of section 4.4.\<close>

definition rank ::
  "(rate_matrix \<Rightarrow> nat list list \<Rightarrow> real) \<Rightarrow> rate_matrix list \<Rightarrow> nat list list
     \<Rightarrow> error + (string \<times> real) list" where
  "rank loglik candidate_models count_matrix =
     (case score_all loglik candidate_models count_matrix of
        Inl e \<Rightarrow> Inl e
      | Inr rs \<Rightarrow> Inr (sort_key rank_key rs))"

subsection \<open>Sampling a count matrix\<close>

text \<open>
  Modelled from the spec: \<^verbatim>\<open>instantiate(name)\<close> of section 4.1. The table of the
  named models is the parameter \<open>registry\<close>.
\<close>

definition instantiate :: "(string \<rightharpoonup> rate_matrix) \<Rightarrow> string \<Rightarrow> error + rate_matrix" where
  "instantiate registry model_name =
     (case registry model_name of None \<Rightarrow> Inl UnknownModelError | Some q \<Rightarrow> Inr q)"

text \<open>Modelled from the spec: the empty tally, a \<open>k\<close> by \<open>k\<close> matrix of zeros.\<close>

definition zero_counts :: "nat \<Rightarrow> nat list list" where
  "zero_counts n = replicate n (replicate n 0)"

text \<open>
  Modelled from the spec: tallying one pair of a start and an end symbol. A symbol
  outside the matrix is an index error, as it is for a Python list.
\<close>

definition tally :: "nat list list \<Rightarrow> nat \<Rightarrow> nat \<Rightarrow> error + nat list list" where
  "tally N a b =
     (if a < length N \<and> b < length (N ! a) then Inr (N[a := (N ! a)[b := N ! a ! b + 1]])
      else Inl IndexError)"

text \<open>
  Modelled from the spec: one simulated site (section 4.3). The start symbol is drawn
  from the frequencies, a branch length is drawn uniformly from \<open>branch_lengths\<close>, and
  the end symbol is drawn from the row of the start symbol in the transition matrix at
  that branch length. \<open>draw\<close> draws an index from a list of weights and hands back the
  state of the seeded generator; \<open>transition_matrix\<close> is the matrix \<open>P(t)\<close> of section
  4.2. Both are parameters.
\<close>

definition sample_site ::
  "(real list \<Rightarrow> 'g \<Rightarrow> nat \<times> 'g) \<Rightarrow> (rate_matrix \<Rightarrow> real \<Rightarrow> real list list) \<Rightarrow>
     rate_matrix \<Rightarrow> real list \<Rightarrow> 'g \<Rightarrow> error + ((nat \<times> nat) \<times> 'g)" where
  "sample_site draw transition_matrix q branch_lengths g =
     (let (start, g1) = draw (frequencies q) g;
          (b, g2) = draw (replicate (length branch_lengths) (1 / real (length branch_lengths))) g1
      in if b < length branch_lengths \<and>
            start < length (transition_matrix q (branch_lengths ! b))
         then
           let (stop, g3) = draw (transition_matrix q (branch_lengths ! b) ! start) g2
           in Inr ((start, stop), g3)
         else Inl IndexError)"

text \<open>Modelled from the spec: the sites are simulated one after the other and tallied.\<close>

fun sample_sites ::
  "(real list \<Rightarrow> 'g \<Rightarrow> nat \<times> 'g) \<Rightarrow> (rate_matrix \<Rightarrow> real \<Rightarrow> real list list) \<Rightarrow>
     rate_matrix \<Rightarrow> real list \<Rightarrow> nat \<Rightarrow> 'g \<Rightarrow> nat list list \<Rightarrow> error + nat list list" where
  "sample_sites draw transition_matrix q branch_lengths 0 g N = Inr N"
| "sample_sites draw transition_matrix q branch_lengths (Suc n) g N =
     (case sample_site draw transition_matrix q branch_lengths g of
        Inl e \<Rightarrow> Inl e
      | Inr ((start, stop), g') \<Rightarrow>
          (case tally N start stop of
             Inl e \<Rightarrow> Inl e
           | Inr N' \<Rightarrow> sample_sites draw transition_matrix q branch_lengths n g' N'))"

text \<open>
  Modelled from the spec: \<^verbatim>\<open>sample_count_matrix(rate_matrix, n, branch_lengths)\<close> of
  section 4.3, with the seed of the generator as an argument.
\<close>

definition sample_count_matrix ::
  "(real list \<Rightarrow> 'g \<Rightarrow> nat \<times> 'g) \<Rightarrow> (rate_matrix \<Rightarrow> real \<Rightarrow> real list list) \<Rightarrow>
     'g \<Rightarrow> rate_matrix \<Rightarrow> nat \<Rightarrow> real list \<Rightarrow> error + nat list list" where
  "sample_count_matrix draw transition_matrix seed rate_matrix n branch_lengths =
     sample_sites draw transition_matrix rate_matrix branch_lengths n seed
       (zero_counts (alphabet_size rate_matrix))"

text \<open>The notions the statements on sampling use.\<close>

definition count_total :: "nat list list \<Rightarrow> nat" where
  "count_total N = sum_list (map sum_list N)"

definition square :: "nat \<Rightarrow> 'a list list \<Rightarrow> bool" where
  "square n M = (length M = n \<and> list_all (\<lambda>row. length row = n) M)"

definition draws_in_range :: "(real list \<Rightarrow> 'g \<Rightarrow> nat \<times> 'g) \<Rightarrow> bool" where
  "draws_in_range draw = (\<forall>weights g. weights \<noteq> [] \<longrightarrow> fst (draw weights g) < length weights)"

subsection \<open>Instances of the parameters of the core for concrete runs\<close>

text \<open>
  A generator that counts: the draw is the counter modulo the number of weights. A
  transition matrix whose rows are the frequencies. A 20-state model with all
  exchangeabilities 1 and uniform frequencies, entered in a registry under the name
  \<^verbatim>\<open>WAG\<close> (the values of the published WAG table are not part of the sources). A model
  on three symbols. A log-likelihood read from a table.
\<close>

definition counter_draw :: "real list \<Rightarrow> nat \<Rightarrow> nat \<times> nat" where
  "counter_draw weights g = (g mod length weights, Suc g)"

definition stationary_rows :: "rate_matrix \<Rightarrow> real \<Rightarrow> real list list" where
  "stationary_rows q t = replicate (alphabet_size q) (frequencies q)"

definition uniform_model :: "string \<Rightarrow> rate_matrix" where
  "uniform_model model_name =
     \<lparr>rm_name = model_name, alphabet_size = 20, exchangeabilities = replicate 190 1,
      frequencies = replicate 20 (1 / 20)\<rparr>"

definition uniform_registry :: "string \<rightharpoonup> rate_matrix" where
  "uniform_registry = [''WAG'' \<mapsto> uniform_model ''WAG'']"

definition three_state_model :: rate_matrix where
  "three_state_model =
     \<lparr>rm_name = ''three'', alphabet_size = 3, exchangeabilities = [1, 2, 3],
      frequencies = [1 / 2, 1 / 4, 1 / 4]\<rparr>"

definition table_loglik :: "rate_matrix \<Rightarrow> nat list list \<Rightarrow> real" where
  "table_loglik q count_matrix = (if rm_name q = ''LG'' then - 5 else - 10)"

section \<open>Properties of the reader\<close>

subsection \<open>One line at a time\<close>

lemma those_map_Some:
  "list_all (\<lambda>t. f t \<noteq> None) ts \<Longrightarrow> those (map f ts) = Some (map (\<lambda>t. the (f t)) ts)"
  by (induction ts) auto

lemma those_map_None:
  "\<not> list_all (\<lambda>t. f t \<noteq> None) ts \<Longrightarrow> those (map f ts) = None"
  by (induction ts) (auto split: option.splits)

lemma map_float_convertible:
  "convertible f line \<Longrightarrow> map_float f (str_split line) = Inr (line_values f line)"
  by (simp add: convertible_def line_values_def map_float_def those_map_Some)

lemma map_float_not_convertible:
  "\<not> convertible f line \<Longrightarrow> map_float f (str_split line) = Inl ValueError"
  by (simp add: convertible_def map_float_def those_map_None)

lemma str_split_Nil: "str_split [] = []"
  by (simp add: str_split_def)

lemma read_loop_comment:
  "is_comment line \<Longrightarrow> read_loop f (line # h) r = read_loop f h r"
  by (cases line) (simp_all add: is_comment_def)

lemma read_loop_bad:
  "line \<noteq> [] \<Longrightarrow> \<not> is_comment line \<Longrightarrow> \<not> convertible f line \<Longrightarrow>
   read_loop f (line # h) r = Inl ValueError"
  by (cases line) (simp_all add: is_comment_def map_float_not_convertible)

lemma read_loop_short:
  "line \<noteq> [] \<Longrightarrow> \<not> is_comment line \<Longrightarrow> convertible f line \<Longrightarrow>
   length (str_split line) < 20 \<Longrightarrow>
   read_loop f (line # h) r = read_loop f h (r @ line_values f line)"
  by (cases line) (simp_all add: is_comment_def map_float_convertible)

lemma read_loop_freq:
  "is_freq_line line \<Longrightarrow> convertible f line \<Longrightarrow>
   read_loop f (line # h) r = Inr (r, line_values f line, h)"
  by (cases line)
    (simp_all add: is_freq_line_def is_comment_def map_float_convertible str_split_Nil)

declare read_loop.simps(2) [simp del]

subsection \<open>A prefix without a frequency line\<close>

lemma read_loop_prefix:
  "[] \<notin> set pre \<Longrightarrow> \<forall>l\<in>set pre. \<not> is_freq_line l \<Longrightarrow>
   \<forall>l\<in>set pre. \<not> is_comment l \<longrightarrow> convertible f l \<Longrightarrow>
   read_loop f (pre @ h) r = read_loop f h (r @ concat (map (line_values f) (data_lines pre)))"
proof (induction pre arbitrary: r)
  case Nil
  then show ?case by (simp add: data_lines_def)
next
  case (Cons l pre)
  show ?case
  proof (cases "is_comment l")
    case True
    have "read_loop f (pre @ h) r =
        read_loop f h (r @ concat (map (line_values f) (data_lines pre)))"
      using Cons.prems by (intro Cons.IH) auto
    with True show ?thesis by (simp add: read_loop_comment data_lines_def)
  next
    case False
    with Cons.prems have "l \<noteq> []" "convertible f l" "length (str_split l) < 20"
      by (auto simp: is_freq_line_def)
    moreover have "read_loop f (pre @ h) (r @ line_values f l) =
        read_loop f h ((r @ line_values f l) @ concat (map (line_values f) (data_lines pre)))"
      using Cons.prems by (intro Cons.IH) auto
    ultimately show ?thesis using False
      by (simp add: read_loop_short data_lines_def)
  qed
qed

lemma read_loop_filter:
  "read_loop f (data_lines h) r =
     map_sum id (\<lambda>(rv, fr, rest). (rv, fr, data_lines rest)) (read_loop f h r)"
proof (induction h arbitrary: r)
  case Nil
  then show ?case by (simp add: data_lines_def)
next
  case (Cons l h)
  show ?case
  proof (cases l)
    case Nil
    then show ?thesis by (simp add: read_loop.simps(2) data_lines_def is_comment_def)
  next
    case (Cons c cs)
    with Cons.IH show ?thesis
      by (simp add: read_loop.simps(2) data_lines_def is_comment_def Let_def split: sum.splits)
  qed
qed

lemma outcome_data_lines:
  "outcome (read_loop f (data_lines h) r) = outcome (read_loop f h r)"
  by (cases "read_loop f h r") (auto simp: read_loop_filter outcome_def)

lemma read_model_outcome:
  "read_model f RM srf h name =
     (case outcome (read_loop f h []) of
        Inl e \<Rightarrow> Inl e
      | Inr (r_vals, freqs) \<Rightarrow> srf (RM name) r_vals freqs)"
  by (cases "read_loop f h []") (auto simp: read_model_def outcome_def)

subsection \<open>A stream without a frequency line\<close>

text \<open>
  Claim C1, as stated: for every input stream, \<^verbatim>\<open>read_model\<close> fails with the
  format error (\<open>IOError\<close>) when the stream holds no line that is not a comment and has
  at least 20 tokens. The stream of the single line \<^verbatim>\<open>x\<close> has no such line, yet
  the failure is the \<open>ValueError\<close> of \<^verbatim>\<open>float\<close>: the tokens of a line are
  converted before the end of the stream is seen.
\<close>

theorem read_model_no_freq_line_counterexample:
  "\<not> list_ex is_freq_line [''x\<newline>''] \<and>
   read_model decimal_float new_stored_model store_r_and_freq [''x\<newline>''] ''WAG'' =
     Inl ValueError"
  by (simp add: run_defs read_loop.simps(2))

text \<open>
  Claim C1, amended: for every input stream of non-empty lines in which every token of
  every line that is not a comment converts to a float, \<^verbatim>\<open>read_model\<close> fails with
  \<open>IOError\<close> (the format error) when no line that is not a comment has at least 20
  tokens.
\<close>

theorem read_model_no_freq_line:
  assumes "[] \<notin> set h"
    and "\<forall>l\<in>set h. \<not> is_comment l \<longrightarrow> convertible pyfloat l"
    and "\<forall>l\<in>set h. \<not> is_freq_line l"
  shows "read_model pyfloat new_matrix setter h model_name =
           Inl (IOError ''Is the input really a PAML-formatted model?'')"
proof -
  have "read_loop pyfloat (h @ []) [] =
      read_loop pyfloat [] ([] @ concat (map (line_values pyfloat) (data_lines h)))"
    using assms by (intro read_loop_prefix) auto
  then show ?thesis by (simp add: read_model_def)
qed

theorem read_model_no_freq_line_witness:
  "read_model decimal_float new_stored_model store_r_and_freq
     [''# WAG\<newline>'', ''0.55 0.51\<newline>'', ''\<newline>'', ''1 2 3''] ''WAG'' =
   Inl (IOError ''Is the input really a PAML-formatted model?'')"
  by (rule read_model_no_freq_line) (simp_all add: run_defs del: not_None_eq)

subsection \<open>A stream with a frequency line\<close>

lemma first_freq_line_split:
  assumes "\<exists>l\<in>set h. is_freq_line l"
  shows "\<exists>pre fl post. h = pre @ fl # post \<and> is_freq_line fl \<and> (\<forall>l\<in>set pre. \<not> is_freq_line l)"
  using assms by (rule split_list_first_prop)

text \<open>
  Claim C2, as stated: for every input stream with a line that is not a comment and has
  at least 20 tokens, \<^verbatim>\<open>read_model\<close> returns a rate matrix built from the first such
  line and the lines before it. The stream below has such a line, but its first line
  \<^verbatim>\<open>x\<close> does not convert and \<^verbatim>\<open>read_model\<close> returns nothing: it raises
  \<open>ValueError\<close>.
\<close>

theorem read_model_freq_line_counterexample:
  "list_ex is_freq_line
     [''x\<newline>'',
      ''0.05 0.05 0.05 0.05 0.05 0.05 0.05 0.05 0.05 0.05 0.05 0.05 0.05 0.05 0.05 0.05 0.05 0.05 0.05 0.05\<newline>''] \<and>
   read_model decimal_float new_stored_model store_r_and_freq
     [''x\<newline>'',
      ''0.05 0.05 0.05 0.05 0.05 0.05 0.05 0.05 0.05 0.05 0.05 0.05 0.05 0.05 0.05 0.05 0.05 0.05 0.05 0.05\<newline>'']
     ''WAG'' = Inl ValueError"
  by (simp add: run_defs read_loop.simps(2))

text \<open>
  Claim C2, amended: let the stream be \<open>pre @ fl # post\<close>, where \<open>fl\<close> is the first
  line that is not a comment and has at least 20 tokens (every stream with such a line
  splits in this way, by \<open>first_freq_line_split\<close>), the lines of \<open>pre\<close> are not
  empty, and every token of the lines of \<open>pre\<close> and of \<open>fl\<close> that are not comments
  converts to a float. Then the loop stops at \<open>fl\<close> with the lines \<open>post\<close> unread,
  \<open>freqs\<close> are the values of \<open>fl\<close>, \<open>r_vals\<close> are the values of the earlier lines
  that are not comments, concatenated in file order, each of these lines has fewer than
  20 tokens, and \<^verbatim>\<open>read_model\<close> ends as \<^verbatim>\<open>set_r_and_freq\<close> does on these
  \<open>r_vals\<close> and \<open>freqs\<close>.
\<close>

theorem read_model_freq_line:
  assumes "[] \<notin> set pre"
    and "\<forall>l\<in>set pre. \<not> is_freq_line l"
    and "is_freq_line fl"
    and "\<forall>l\<in>set (pre @ [fl]). \<not> is_comment l \<longrightarrow> convertible pyfloat l"
  shows "read_loop pyfloat (pre @ fl # post) [] =
           Inr (concat (map (line_values pyfloat) (data_lines pre)), line_values pyfloat fl, post)
         \<and> read_model pyfloat new_matrix setter (pre @ fl # post) model_name =
             setter (new_matrix model_name)
               (concat (map (line_values pyfloat) (data_lines pre))) (line_values pyfloat fl)
         \<and> (\<forall>l\<in>set (data_lines pre). length (str_split l) < 20)"
proof -
  have fl: "convertible pyfloat fl"
    using assms(3,4) by (simp add: is_freq_line_def)
  have "read_loop pyfloat (pre @ fl # post) [] =
      read_loop pyfloat (fl # post) ([] @ concat (map (line_values pyfloat) (data_lines pre)))"
    using assms by (intro read_loop_prefix) auto
  then have loop: "read_loop pyfloat (pre @ fl # post) [] =
      Inr (concat (map (line_values pyfloat) (data_lines pre)), line_values pyfloat fl, post)"
    using assms(3) fl by (simp add: read_loop_freq)
  moreover have "\<forall>l\<in>set (data_lines pre). length (str_split l) < 20"
    using assms(2) by (auto simp: data_lines_def is_freq_line_def)
  ultimately show ?thesis by (simp add: read_model_def)
qed

theorem read_model_freq_line_witness:
  "read_model decimal_float new_stored_model store_r_and_freq
     ([''# WAG\<newline>'', ''0.55\<newline>'', ''0.51 0.63\<newline>''] @
      ''0.05 0.05 0.05 0.05 0.05 0.05 0.05 0.05 0.05 0.05 0.05 0.05 0.05 0.05 0.05 0.05 0.05 0.05 0.05 0.05\<newline>'' #
      ['''', ''x y z\<newline>'']) ''WAG'' =
   Inr \<lparr>stored_name = ''WAG'', stored_r_vals = [55 / 100, 51 / 100, 63 / 100],
        stored_freqs = replicate 20 (5 / 100)\<rparr>"
proof -
  have "[] \<notin> set [''# WAG\<newline>'', ''0.55\<newline>'', ''0.51 0.63\<newline>'']"
    and "\<forall>l\<in>set [''# WAG\<newline>'', ''0.55\<newline>'', ''0.51 0.63\<newline>'']. \<not> is_freq_line l"
    and "is_freq_line ''0.05 0.05 0.05 0.05 0.05 0.05 0.05 0.05 0.05 0.05 0.05 0.05 0.05 0.05 0.05 0.05 0.05 0.05 0.05 0.05\<newline>''"
    and "\<forall>l\<in>set ([''# WAG\<newline>'', ''0.55\<newline>'', ''0.51 0.63\<newline>''] @
            [''0.05 0.05 0.05 0.05 0.05 0.05 0.05 0.05 0.05 0.05 0.05 0.05 0.05 0.05 0.05 0.05 0.05 0.05 0.05 0.05\<newline>'']).
          \<not> is_comment l \<longrightarrow> convertible decimal_float l"
    by (simp_all add: run_defs del: not_None_eq)
  from read_model_freq_line [OF this, where new_matrix = new_stored_model
      and setter = store_r_and_freq and post = "['''', ''x y z\<newline>'']"
      and model_name = "''WAG''"]
  show ?thesis
    by (simp add: run_defs eval_nat_numeral)
qed

subsection \<open>Comment lines\<close>

text \<open>
  Claim C8: a line whose first character is \<^verbatim>\<open>#\<close> is skipped. Wherever such a
  line stands in the stream and whatever follows the \<^verbatim>\<open>#\<close> (numbers, 20 tokens or
  more, text that is no number), the loop ends with the same \<open>r_vals\<close> and \<open>freqs\<close>,
  or the same error, as on the stream without the line, and so does \<^verbatim>\<open>read_model\<close>:
  the line adds no exchangeability value, is not taken as the frequency line and leaves the
  returned rate matrix as it is.
\<close>

theorem read_model_skips_comments:
  assumes "is_comment c"
  shows "outcome (read_loop pyfloat (pre @ c # post) r_vals) =
           outcome (read_loop pyfloat (pre @ post) r_vals)
         \<and> read_model pyfloat new_matrix setter (pre @ c # post) model_name =
             read_model pyfloat new_matrix setter (pre @ post) model_name"
proof -
  have "data_lines (pre @ c # post) = data_lines (pre @ post)"
    using assms by (simp add: data_lines_def)
  then have "\<And>r. outcome (read_loop pyfloat (pre @ c # post) r) =
      outcome (read_loop pyfloat (pre @ post) r)"
    by (metis outcome_data_lines)
  then show ?thesis by (simp add: read_model_outcome)
qed

theorem read_model_skips_comments_witness:
  "is_comment ''# 1 2 3 4 5 6 7 8 9 10 11 12 13 14 15 16 17 18 19 20 x\<newline>'' \<and>
   read_model decimal_float new_stored_model store_r_and_freq
     ([''0.55\<newline>''] @ ''# 1 2 3 4 5 6 7 8 9 10 11 12 13 14 15 16 17 18 19 20 x\<newline>'' #
      [''0.05 0.05 0.05 0.05 0.05 0.05 0.05 0.05 0.05 0.05 0.05 0.05 0.05 0.05 0.05 0.05 0.05 0.05 0.05 0.05\<newline>''])
     ''WAG'' =
   Inr \<lparr>stored_name = ''WAG'', stored_r_vals = [55 / 100], stored_freqs = replicate 20 (5 / 100)\<rparr>"
proof -
  have c: "is_comment ''# 1 2 3 4 5 6 7 8 9 10 11 12 13 14 15 16 17 18 19 20 x\<newline>''"
    by (simp add: is_comment_def)
  have "read_model decimal_float new_stored_model store_r_and_freq
     ([''0.55\<newline>''] @
      [''0.05 0.05 0.05 0.05 0.05 0.05 0.05 0.05 0.05 0.05 0.05 0.05 0.05 0.05 0.05 0.05 0.05 0.05 0.05 0.05\<newline>''])
     ''WAG'' =
   Inr \<lparr>stored_name = ''WAG'', stored_r_vals = [55 / 100], stored_freqs = replicate 20 (5 / 100)\<rparr>"
    by (simp add: run_defs read_loop.simps(2) eval_nat_numeral)
  with c read_model_skips_comments [OF c, where pyfloat = decimal_float
      and new_matrix = new_stored_model and setter = store_r_and_freq
      and pre = "[''0.55\<newline>'']" and model_name = "''WAG''" and r_vals = "[]"
      and post = "[''0.05 0.05 0.05 0.05 0.05 0.05 0.05 0.05 0.05 0.05 0.05 0.05 0.05 0.05 0.05 0.05 0.05 0.05 0.05 0.05\<newline>'']"]
  show ?thesis by simp
qed

subsection \<open>The frequency line first\<close>

text \<open>
  Claim C9, as stated: if the first line that is not a comment has at least 20 tokens,
  \<^verbatim>\<open>read_model\<close> itself raises no error. In the stream below that line has 20
  tokens \<^verbatim>\<open>x\<close>, and \<^verbatim>\<open>read_model\<close> raises \<open>ValueError\<close> before it reaches
  \<^verbatim>\<open>set_r_and_freq\<close> (the setter used here never raises).
\<close>

theorem read_model_first_line_freq_counterexample:
  "data_lines [''# WAG\<newline>'', ''x x x x x x x x x x x x x x x x x x x x\<newline>''] =
     [''x x x x x x x x x x x x x x x x x x x x\<newline>''] \<and>
   is_freq_line ''x x x x x x x x x x x x x x x x x x x x\<newline>'' \<and>
   read_model decimal_float new_stored_model store_r_and_freq
     [''# WAG\<newline>'', ''x x x x x x x x x x x x x x x x x x x x\<newline>''] ''WAG'' =
     Inl ValueError"
  by (simp add: run_defs read_loop.simps(2))

text \<open>
  Claim C9, amended: if the first line that is not a comment has at least 20 tokens and
  every token of it converts to a float, \<^verbatim>\<open>read_model\<close> itself raises no error:
  the loop stops at that line with no exchangeability value collected, and
  \<^verbatim>\<open>read_model\<close> ends as \<^verbatim>\<open>set_r_and_freq\<close> does on the empty list and the
  values of that line, so that the missing exchangeability block is for
  \<^verbatim>\<open>set_r_and_freq\<close> to detect.
\<close>

theorem read_model_first_line_freq:
  assumes "\<forall>l\<in>set cs. is_comment l"
    and "is_freq_line fl"
    and "convertible pyfloat fl"
  shows "read_loop pyfloat (cs @ fl # post) [] = Inr ([], line_values pyfloat fl, post)
         \<and> read_model pyfloat new_matrix setter (cs @ fl # post) model_name =
             setter (new_matrix model_name) [] (line_values pyfloat fl)"
proof -
  have "read_loop pyfloat (cs @ fl # post) r = read_loop pyfloat (fl # post) r" for r
    using assms(1) by (induction cs) (simp_all add: read_loop_comment)
  then have "read_loop pyfloat (cs @ fl # post) [] = Inr ([], line_values pyfloat fl, post)"
    using assms(2,3) by (simp add: read_loop_freq)
  then show ?thesis by (simp add: read_model_def)
qed

theorem read_model_first_line_freq_witness:
  "read_model decimal_float new_stored_model store_r_and_freq
     ([''# WAG\<newline>'', ''#\<newline>''] @
      ''0.05 0.05 0.05 0.05 0.05 0.05 0.05 0.05 0.05 0.05 0.05 0.05 0.05 0.05 0.05 0.05 0.05 0.05 0.05 0.05\<newline>'' #
      [''0.55\<newline>'']) ''WAG'' =
   Inr \<lparr>stored_name = ''WAG'', stored_r_vals = [], stored_freqs = replicate 20 (5 / 100)\<rparr>"
proof -
  have "\<forall>l\<in>set [''# WAG\<newline>'', ''#\<newline>'']. is_comment l"
    and "is_freq_line ''0.05 0.05 0.05 0.05 0.05 0.05 0.05 0.05 0.05 0.05 0.05 0.05 0.05 0.05 0.05 0.05 0.05 0.05 0.05 0.05\<newline>''"
    and "convertible decimal_float ''0.05 0.05 0.05 0.05 0.05 0.05 0.05 0.05 0.05 0.05 0.05 0.05 0.05 0.05 0.05 0.05 0.05 0.05 0.05 0.05\<newline>''"
    by (simp_all add: run_defs del: not_None_eq)
  from read_model_first_line_freq [OF this, where new_matrix = new_stored_model
      and setter = store_r_and_freq and post = "[''0.55\<newline>'']"
      and model_name = "''WAG''"]
  show ?thesis
    by (simp add: run_defs eval_nat_numeral)
qed

subsection \<open>Tokens that are no numbers\<close>

lemma read_loop_reaches_bad:
  "[] \<notin> set pre \<Longrightarrow> \<forall>l\<in>set pre. \<not> is_freq_line l \<Longrightarrow>
   line \<noteq> [] \<Longrightarrow> \<not> is_comment line \<Longrightarrow> \<not> convertible f line \<Longrightarrow>
   read_loop f (pre @ line # post) r = Inl ValueError"
proof (induction pre arbitrary: r)
  case Nil
  then show ?case by (simp add: read_loop_bad)
next
  case (Cons l pre)
  have IH: "read_loop f (pre @ line # post) r' = Inl ValueError" for r'
    using Cons.prems by (intro Cons.IH) auto
  show ?case
  proof (cases "is_comment l")
    case True
    then show ?thesis by (simp add: read_loop_comment IH)
  next
    case nc: False
    with Cons.prems have l: "l \<noteq> []" "length (str_split l) < 20"
      by (auto simp: is_freq_line_def)
    show ?thesis
    proof (cases "convertible f l")
      case True
      with nc l show ?thesis by (simp add: read_loop_short IH)
    next
      case False
      with nc l show ?thesis by (simp add: read_loop_bad)
    qed
  qed
qed

text \<open>
  Claim C10, as stated: any line that is not a comment and holds a token that is no
  number makes \<^verbatim>\<open>read_model\<close> raise \<open>ValueError\<close>. In the stream below the line
  \<^verbatim>\<open>x\<close> is such a line, but it comes after the frequency line, where the loop has
  already stopped: the line is never read and \<^verbatim>\<open>read_model\<close> returns the model.
\<close>

theorem read_model_value_error_counterexample:
  "\<not> is_comment ''x\<newline>'' \<and> ''x'' \<in> set (str_split ''x\<newline>'') \<and>
   decimal_float ''x'' = None \<and>
   read_model decimal_float new_stored_model store_r_and_freq
     [''0.05 0.05 0.05 0.05 0.05 0.05 0.05 0.05 0.05 0.05 0.05 0.05 0.05 0.05 0.05 0.05 0.05 0.05 0.05 0.05\<newline>'',
      ''x\<newline>''] ''WAG'' =
   Inr \<lparr>stored_name = ''WAG'', stored_r_vals = [], stored_freqs = replicate 20 (5 / 100)\<rparr>"
  by (simp add: run_defs read_loop.simps(2) eval_nat_numeral)

text \<open>
  Claim C10, amended: the tokens of a line that is not a comment are converted before
  the number of tokens is looked at. So when the loop comes to such a line (the lines
  before it are not empty and none of them is a frequency line) and one of its tokens
  does not convert, \<^verbatim>\<open>read_model\<close> raises \<open>ValueError\<close>, which is none of the errors
  of the specification's taxonomy, whatever the number of tokens of the line. A line
  whose \<^verbatim>\<open>#\<close> comes after a blank is such a line: the witness runs one with more than
  20 tokens and one with two.
\<close>

theorem read_model_value_error:
  assumes "[] \<notin> set pre"
    and "\<forall>l\<in>set pre. \<not> is_freq_line l"
    and "\<not> is_comment line"
    and "t \<in> set (str_split line)"
    and "pyfloat t = None"
  shows "read_model pyfloat new_matrix setter (pre @ line # post) model_name =
           Inl ValueError"
proof -
  have "line \<noteq> []"
    using assms(4) by (auto simp: str_split_Nil)
  moreover have "\<not> convertible pyfloat line"
    using assms(4,5) by (auto simp: convertible_def list_all_iff)
  ultimately have "read_loop pyfloat (pre @ line # post) [] = Inl ValueError"
    using assms(1,2,3) by (intro read_loop_reaches_bad)
  then show ?thesis by (simp add: read_model_def)
qed

theorem read_model_value_error_witness:
  "20 \<le> length (str_split '' # 1 2 3 4 5 6 7 8 9 10 11 12 13 14 15 16 17 18 19 20\<newline>'') \<and>
   read_model decimal_float new_stored_model store_r_and_freq
     ([''0.55\<newline>''] @ '' # 1 2 3 4 5 6 7 8 9 10 11 12 13 14 15 16 17 18 19 20\<newline>'' # [])
     ''WAG'' = Inl ValueError \<and>
   length (str_split '' # WAG\<newline>'') < 20 \<and>
   read_model decimal_float new_stored_model store_r_and_freq
     ([''0.55\<newline>''] @ '' # WAG\<newline>'' # []) ''WAG'' = Inl ValueError"
proof -
  have pre: "[] \<notin> set [''0.55\<newline>'']" "\<forall>l\<in>set [''0.55\<newline>'']. \<not> is_freq_line l"
    by (simp_all add: run_defs)
  have bad: "decimal_float ''#'' = None"
    by (simp add: run_defs)
  have long: "\<not> is_comment '' # 1 2 3 4 5 6 7 8 9 10 11 12 13 14 15 16 17 18 19 20\<newline>''"
    "''#'' \<in> set (str_split '' # 1 2 3 4 5 6 7 8 9 10 11 12 13 14 15 16 17 18 19 20\<newline>'')"
    "20 \<le> length (str_split '' # 1 2 3 4 5 6 7 8 9 10 11 12 13 14 15 16 17 18 19 20\<newline>'')"
    by (simp_all add: run_defs)
  have short: "\<not> is_comment '' # WAG\<newline>''" "''#'' \<in> set (str_split '' # WAG\<newline>'')"
    "length (str_split '' # WAG\<newline>'') < 20"
    by (simp_all add: run_defs)
  show ?thesis
    using read_model_value_error [where pyfloat = decimal_float and t = "''#''"
          and new_matrix = new_stored_model and setter = store_r_and_freq
          and post = "[]" and model_name = "''WAG''", OF pre long(1,2) bad]
      read_model_value_error [where pyfloat = decimal_float and t = "''#''"
          and new_matrix = new_stored_model and setter = store_r_and_freq
          and post = "[]" and model_name = "''WAG''", OF pre short(1,2) bad]
      long(3) short(3)
    by simp
qed

section \<open>Properties of the rate-matrix core\<close>

subsection \<open>Setting the parameters\<close>

text \<open>
  Claim C4: \<^verbatim>\<open>set_r_and_freq(r_vals, freqs)\<close> fails if and only if the input is
  malformed, that is, the length of \<open>r_vals\<close> differs from \<open>k(k-1)/2\<close>, the length of
  \<open>freqs\<close> differs from \<open>k\<close>, a frequency is negative, or all frequencies are zero;
  every failure is \<open>MalformedModelError\<close>, and otherwise the call succeeds. The
  witness runs the alphabet of size 20 with 189 and with 190 exchangeabilities.
\<close>

theorem set_r_and_freq_malformed:
  "((\<exists>e. set_r_and_freq tol q r_vals freqs = Inl e) \<longleftrightarrow>
      length r_vals \<noteq> alphabet_size q * (alphabet_size q - 1) div 2 \<or>
      length freqs \<noteq> alphabet_size q \<or>
      (\<exists>f\<in>set freqs. f < 0) \<or> (\<forall>f\<in>set freqs. f = 0))
   \<and> (\<forall>e. set_r_and_freq tol q r_vals freqs = Inl e \<longrightarrow> e = MalformedModelError)
   \<and> ((\<exists>q'. set_r_and_freq tol q r_vals freqs = Inr q') \<longleftrightarrow>
      \<not> (length r_vals \<noteq> alphabet_size q * (alphabet_size q - 1) div 2 \<or>
      length freqs \<noteq> alphabet_size q \<or>
      (\<exists>f\<in>set freqs. f < 0) \<or> (\<forall>f\<in>set freqs. f = 0)))"
  by (auto simp: set_r_and_freq_def list_ex_iff list_all_iff Let_def)

theorem set_r_and_freq_malformed_witness:
  "set_r_and_freq (1 / 1000) (RateMatrix ''WAG'') (replicate 189 1) (replicate 20 (1 / 20)) =
     Inl MalformedModelError \<and>
   set_r_and_freq (1 / 1000) (RateMatrix ''WAG'') (replicate 190 1) (replicate 20 (1 / 20)) =
     Inr \<lparr>rm_name = ''WAG'', alphabet_size = 20, exchangeabilities = replicate 190 1,
          frequencies = replicate 20 (1 / 20)\<rparr>"
proof -
  have "\<exists>e. set_r_and_freq (1 / 1000) (RateMatrix ''WAG'') (replicate 189 1)
      (replicate 20 (1 / 20)) = Inl e"
    using set_r_and_freq_malformed
      [of "1 / 1000" "RateMatrix ''WAG''" "replicate 189 1" "replicate 20 (1 / 20)"]
    by (simp add: RateMatrix_def)
  then have "set_r_and_freq (1 / 1000) (RateMatrix ''WAG'') (replicate 189 1)
      (replicate 20 (1 / 20)) = Inl MalformedModelError"
    using set_r_and_freq_malformed
      [of "1 / 1000" "RateMatrix ''WAG''" "replicate 189 1" "replicate 20 (1 / 20)"]
    by blast
  moreover have "set_r_and_freq (1 / 1000) (RateMatrix ''WAG'') (replicate 190 1)
      (replicate 20 (1 / 20)) =
     Inr \<lparr>rm_name = ''WAG'', alphabet_size = 20, exchangeabilities = replicate 190 1,
          frequencies = replicate 20 (1 / 20)\<rparr>"
    by (simp add: set_r_and_freq_def RateMatrix_def sum_list_replicate list_all_length
          list_ex_length) (rule exI [of _ 0], simp)
  ultimately show ?thesis by simp
qed

subsection \<open>The rows of Q\<close>

lemma tri_index_less:
  fixes i j n :: nat
  assumes "j < i" "i < n"
  shows "i * (i - 1) div 2 + j < n * (n - 1) div 2"
proof -
  have "i * (i - 1) div 2 + i = (i * (i - 1) + i * 2) div 2"
    by simp
  also have "i * (i - 1) + i * 2 = (i + 1) * i"
    by (cases i) (simp_all add: algebra_simps)
  finally have "i * (i - 1) div 2 + i = (i + 1) * i div 2" .
  also have "\<dots> \<le> n * (n - 1) div 2"
  proof -
    have "(i + 1) * i \<le> n * (n - 1)"
      using assms by (intro mult_mono) auto
    then show ?thesis by (rule div_le_mono)
  qed
  finally show ?thesis using assms by linarith
qed

lemma exchangeability_in_range:
  assumes "valid_parameters q" and "i < alphabet_size q" and "j < alphabet_size q"
    and "j \<noteq> i"
  shows "exchangeability q i j \<in> set (exchangeabilities q)"
proof -
  have len: "length (exchangeabilities q) = alphabet_size q * (alphabet_size q - 1) div 2"
    using assms(1) unfolding valid_parameters_def by blast
  show ?thesis
  proof (cases "j < i")
    case True
    then have "i * (i - 1) div 2 + j < alphabet_size q * (alphabet_size q - 1) div 2"
      using assms(2) by (rule tri_index_less)
    then have "exchangeabilities q ! (i * (i - 1) div 2 + j) \<in> set (exchangeabilities q)"
      unfolding len [symmetric] by (rule nth_mem)
    with True show ?thesis by (simp only: exchangeability_def if_True)
  next
    case False
    with assms(4) have "i < j" by simp
    then have "j * (j - 1) div 2 + i < alphabet_size q * (alphabet_size q - 1) div 2"
      using assms(3) by (rule tri_index_less)
    then have "exchangeabilities q ! (j * (j - 1) div 2 + i) \<in> set (exchangeabilities q)"
      unfolding len [symmetric] by (rule nth_mem)
    with False show ?thesis by (simp only: exchangeability_def if_False)
  qed
qed

lemma sum_list_split_index:
  fixes f :: "nat \<Rightarrow> real"
  assumes "i < n"
  shows "sum_list (map f [0..<n]) = f i + sum_list (map f (filter (\<lambda>l. l \<noteq> i) [0..<n]))"
proof -
  have "sum_list (map f [0..<n]) = sum f {0..<n}"
    by (simp add: interv_sum_list_conv_sum_set_nat)
  also have "\<dots> = f i + sum f ({0..<n} - {i})"
    using assms by (simp add: sum.remove)
  also have "{0..<n} - {i} = set (filter (\<lambda>l. l \<noteq> i) [0..<n])"
    by auto
  also have "sum f (set (filter (\<lambda>l. l \<noteq> i) [0..<n])) =
      sum_list (map f (filter (\<lambda>l. l \<noteq> i) [0..<n]))"
    by (simp add: sum_list_distinct_conv_sum_set)
  finally show ?thesis .
qed

text \<open>
  Claim C5: for a rate matrix with valid exchangeabilities and frequencies, every entry
  of \<open>Q\<close> off the diagonal is the exchangeability of the pair (a value of the flat
  sequence) times the frequency of the column, every row of \<open>Q\<close> sums to zero, and the
  diagonal entry is minus the sum of the other entries of its row.
\<close>

theorem build_Q_rows:
  assumes "valid_parameters q" and "i < alphabet_size q"
  shows "(\<forall>j<alphabet_size q. j \<noteq> i \<longrightarrow>
            build_Q q ! i ! j = exchangeability q i j * frequencies q ! j
            \<and> exchangeability q i j \<in> set (exchangeabilities q))
         \<and> sum_list (build_Q q ! i) = 0
         \<and> build_Q q ! i ! i =
             - sum_list (map (\<lambda>j. build_Q q ! i ! j) (filter (\<lambda>j. j \<noteq> i) [0..<alphabet_size q]))"
proof -
  let ?n = "alphabet_size q"
  have row: "build_Q q ! i = map (\<lambda>j. Q_entry q i j) [0..<?n]"
    using assms(2) by (simp add: build_Q_def)
  have off: "build_Q q ! i ! j = exchangeability q i j * frequencies q ! j"
    if "j < ?n" "j \<noteq> i" for j
    using that by (simp add: row Q_entry_def)
  have offs: "map (\<lambda>j. build_Q q ! i ! j) (filter (\<lambda>j. j \<noteq> i) [0..<?n]) =
      map (\<lambda>l. exchangeability q i l * frequencies q ! l) (filter (\<lambda>l. l \<noteq> i) [0..<?n])"
    by (rule map_cong) (auto simp: off)
  have diag: "build_Q q ! i ! i =
      - sum_list (map (\<lambda>j. build_Q q ! i ! j) (filter (\<lambda>j. j \<noteq> i) [0..<?n]))"
    using assms(2) by (simp add: offs) (simp add: row Q_entry_def)
  have "length (build_Q q ! i) = ?n"
    by (simp add: row)
  then have "map (\<lambda>j. build_Q q ! i ! j) [0..<?n] = build_Q q ! i"
    using map_nth [of "build_Q q ! i"] by simp
  then have "sum_list (build_Q q ! i) = sum_list (map (\<lambda>j. build_Q q ! i ! j) [0..<?n])"
    by simp
  also have "\<dots> = build_Q q ! i ! i +
      sum_list (map (\<lambda>j. build_Q q ! i ! j) (filter (\<lambda>l. l \<noteq> i) [0..<?n]))"
    using assms(2) by (rule sum_list_split_index)
  also have "\<dots> = 0"
    using diag by simp
  finally have "sum_list (build_Q q ! i) = 0" .
  moreover have "exchangeability q i j \<in> set (exchangeabilities q)"
    if "j < ?n" "j \<noteq> i" for j
    using assms that by (rule exchangeability_in_range)
  ultimately show ?thesis using off diag by simp
qed

theorem build_Q_rows_witness:
  "valid_parameters three_state_model \<and>
   build_Q three_state_model ! 1 = [1 / 2, - 5 / 4, 3 / 4] \<and>
   build_Q three_state_model ! 1 ! 2 =
     exchangeability three_state_model 1 2 * frequencies three_state_model ! 2 \<and>
   sum_list (build_Q three_state_model ! 1) = 0"
proof -
  have v: "valid_parameters three_state_model"
    by (simp add: valid_parameters_def three_state_model_def)
  have i: "1 < alphabet_size three_state_model"
    by (simp add: three_state_model_def)
  have two: "(2 :: nat) < alphabet_size three_state_model" "(2 :: nat) \<noteq> 1"
    by (simp_all add: three_state_model_def)
  have "[0..<3] = [0, 1, 2]"
    by (simp add: upt_rec)
  then have row: "build_Q three_state_model ! 1 = [1 / 2, - 5 / 4, 3 / 4]"
    by (simp add: build_Q_def Q_entry_def exchangeability_def three_state_model_def)
  from build_Q_rows [OF v i]
  have off: "\<forall>j<alphabet_size three_state_model. j \<noteq> 1 \<longrightarrow>
      build_Q three_state_model ! 1 ! j =
        exchangeability three_state_model 1 j * frequencies three_state_model ! j
      \<and> exchangeability three_state_model 1 j \<in> set (exchangeabilities three_state_model)"
    and zero: "sum_list (build_Q three_state_model ! 1) = 0"
    by blast+
  from off two have "build_Q three_state_model ! 1 ! 2 =
      exchangeability three_state_model 1 2 * frequencies three_state_model ! 2"
    by blast
  with v row zero show ?thesis by blast
qed

subsection \<open>Ranking\<close>

lemma score_all_ok:
  "\<not> all_zero cm \<Longrightarrow> score_all loglik qs cm = Inr (map (\<lambda>q. (rm_name q, loglik q cm)) qs)"
  by (induction qs) (simp_all add: score_def)

lemma inj_rank_key: "inj_on rank_key A"
  by (rule inj_onI) (simp add: rank_key_def prod_eq_iff)

lemma rank_key_le:
  "rank_key a \<le> rank_key b \<longleftrightarrow> snd b < snd a \<or> (snd b = snd a \<and> fst a \<le> fst b)"
  unfolding rank_key_def less_eq_prod_def by (simp only: fst_conv snd_conv) auto

lemma sorted_rank_key:
  "sorted (map rank_key rs) \<Longrightarrow>
   sorted_wrt (\<lambda>a b. snd b < snd a \<or> (snd b = snd a \<and> fst a \<le> fst b)) rs"
  by (simp only: sorted_map rank_key_le)

text \<open>
  Claim C7, as stated: for any candidates and any count matrix, \<^verbatim>\<open>rank\<close> scores
  every candidate and returns them in order. On a count matrix that is all zero the
  score of the first candidate fails, and \<^verbatim>\<open>rank\<close> returns no ordering: it fails
  with \<open>DegenerateInputError\<close>.
\<close>

theorem rank_sorted_counterexample:
  "all_zero [[0, 0], [0, 0]] \<and>
   rank table_loglik [RateMatrix ''WAG'', RateMatrix ''LG''] [[0, 0], [0, 0]] =
     Inl DegenerateInputError"
  by (simp add: all_zero_def rank_def score_def)

text \<open>
  Claim C7, amended: for any candidates and any count matrix that is not all zero,
  \<^verbatim>\<open>rank(candidate_models, count_matrix)\<close> scores every candidate and returns the
  results by descending score, equal scores by model name; the returned list is the
  same for every order in which the same candidates are given.
\<close>

theorem rank_sorted:
  assumes "\<not> all_zero count_matrix"
  shows "\<exists>rs. rank loglik candidate_models count_matrix = Inr rs
           \<and> mset rs = mset (map (\<lambda>q. (rm_name q, loglik q count_matrix)) candidate_models)
           \<and> sorted_wrt (\<lambda>a b. snd b < snd a \<or> (snd b = snd a \<and> fst a \<le> fst b)) rs
           \<and> (\<forall>other. mset other = mset candidate_models \<longrightarrow>
                 rank loglik other count_matrix = Inr rs)"
proof -
  define res where "res = (\<lambda>qs. map (\<lambda>q. (rm_name q, loglik q count_matrix)) qs)"
  define rs where "rs = sort_key rank_key (res candidate_models)"
  have r: "rank loglik qs count_matrix = Inr (sort_key rank_key (res qs))" for qs
    using assms by (simp add: rank_def score_all_ok res_def)
  have srt: "sorted (map rank_key rs)"
    unfolding rs_def by (rule sorted_sort_key)
  have ms: "mset rs = mset (res candidate_models)"
    unfolding rs_def by (rule mset_sort)
  have det: "rank loglik other count_matrix = Inr rs"
    if "mset other = mset candidate_models" for other
  proof -
    have "mset (res other) = mset rs"
      unfolding ms res_def mset_map that ..
    then have "sort_key rank_key (res other) = rs"
      using inj_rank_key srt by (rule sort_key_inj_key_eq)
    then show ?thesis by (simp only: r)
  qed
  have "rank loglik candidate_models count_matrix = Inr rs"
    by (simp only: r rs_def)
  moreover have "mset rs = mset (map (\<lambda>q. (rm_name q, loglik q count_matrix)) candidate_models)"
    using ms by (simp only: res_def)
  moreover have "sorted_wrt (\<lambda>a b. snd b < snd a \<or> (snd b = snd a \<and> fst a \<le> fst b)) rs"
    using srt by (rule sorted_rank_key)
  ultimately show ?thesis using det by blast
qed

theorem rank_sorted_witness:
  "\<not> all_zero [[0, 1], [2, 0]] \<and>
   rank table_loglik [RateMatrix ''WAG'', RateMatrix ''LG'', RateMatrix ''JTT''] [[0, 1], [2, 0]] =
     Inr [(''LG'', - 5), (''JTT'', - 10), (''WAG'', - 10)] \<and>
   rank table_loglik [RateMatrix ''JTT'', RateMatrix ''WAG'', RateMatrix ''LG''] [[0, 1], [2, 0]] =
     Inr [(''LG'', - 5), (''JTT'', - 10), (''WAG'', - 10)]"
proof -
  have nz: "\<not> all_zero [[0, 1], [2, 0]]"
    by (simp add: all_zero_def)
  have le: "(''JTT'' :: string) \<le> ''WAG''"
    by code_simp
  have m: "map (\<lambda>q. (rm_name q, table_loglik q [[0, 1], [2, 0]]))
      [RateMatrix ''WAG'', RateMatrix ''LG'', RateMatrix ''JTT''] =
      [(''WAG'', - 10), (''LG'', - 5), (''JTT'', - 10)]"
    by (simp add: table_loglik_def RateMatrix_def)
  have srt: "sort_key rank_key [(''WAG'', - 10 :: real), (''LG'', - 5), (''JTT'', - 10)] =
      [(''LG'', - 5), (''JTT'', - 10), (''WAG'', - 10)]"
    by (simp add: rank_key_def less_eq_prod_def le)
  have "score_all table_loglik [RateMatrix ''WAG'', RateMatrix ''LG'', RateMatrix ''JTT'']
      [[0, 1], [2, 0]] = Inr [(''WAG'', - 10), (''LG'', - 5), (''JTT'', - 10)]"
    using score_all_ok [OF nz, of table_loglik
        "[RateMatrix ''WAG'', RateMatrix ''LG'', RateMatrix ''JTT'']"]
    by (simp only: m)
  then have first: "rank table_loglik
      [RateMatrix ''WAG'', RateMatrix ''LG'', RateMatrix ''JTT''] [[0, 1], [2, 0]] =
      Inr [(''LG'', - 5), (''JTT'', - 10), (''WAG'', - 10)]"
    by (simp only: rank_def sum.case srt)
  have "mset [RateMatrix ''JTT'', RateMatrix ''WAG'', RateMatrix ''LG''] =
      mset [RateMatrix ''WAG'', RateMatrix ''LG'', RateMatrix ''JTT'']"
    by (simp add: add_mset_commute)
  with first rank_sorted [OF nz, of table_loglik
      "[RateMatrix ''WAG'', RateMatrix ''LG'', RateMatrix ''JTT'']"]
  have "rank table_loglik [RateMatrix ''JTT'', RateMatrix ''WAG'', RateMatrix ''LG'']
      [[0, 1], [2, 0]] = Inr [(''LG'', - 5), (''JTT'', - 10), (''WAG'', - 10)]"
    by auto
  with nz first show ?thesis by simp
qed

subsection \<open>Sampling\<close>

lemma sum_list_bump:
  fixes row :: "nat list"
  assumes "b < length row"
  shows "sum_list (row[b := Suc (row ! b)]) = Suc (sum_list row)"
proof -
  have "row ! b \<le> sum_list row"
    using assms by (intro member_le_sum_list) simp_all
  then show ?thesis
    using assms by (simp add: sum_list_update)
qed

lemma total_bump:
  assumes "a < length N" and "b < length (N ! a)"
  shows "count_total (N[a := (N ! a)[b := Suc (N ! a ! b)]]) = Suc (count_total N)"
proof -
  let ?sums = "map sum_list N"
  have "?sums ! a \<le> sum_list ?sums"
    using assms(1) by (intro member_le_sum_list) simp_all
  moreover have "count_total (N[a := (N ! a)[b := Suc (N ! a ! b)]]) =
      sum_list (?sums[a := Suc (sum_list (N ! a))])"
    using assms by (simp add: count_total_def map_update sum_list_bump)
  ultimately show ?thesis
    using assms(1) by (simp add: count_total_def sum_list_update)
qed

lemma square_bump:
  assumes "square n N" and "a < length N" and "b < length (N ! a)"
  shows "square n (N[a := (N ! a)[b := Suc (N ! a ! b)]])"
  using assms by (auto simp: square_def list_all_length nth_list_update)

lemma tally_ok:
  assumes "square n N" and "a < n" and "b < n"
  shows "\<exists>N'. tally N a b = Inr N' \<and> square n N' \<and> count_total N' = count_total N + 1"
proof -
  have a: "a < length N" and b: "b < length (N ! a)"
    using assms by (auto simp: square_def list_all_length)
  then show ?thesis
    using assms(1) by (simp add: tally_def total_bump square_bump)
qed

lemma sample_site_ok:
  assumes "draws_in_range draw"
    and "\<forall>t. square (alphabet_size q) (P q t)"
    and "length (frequencies q) = alphabet_size q" and "0 < alphabet_size q"
    and "branch_lengths \<noteq> []"
  shows "\<exists>a b g'. sample_site draw P q branch_lengths g = Inr ((a, b), g')
           \<and> a < alphabet_size q \<and> b < alphabet_size q"
proof -
  obtain a g1 where d1: "draw (frequencies q) g = (a, g1)"
    by (cases "draw (frequencies q) g")
  obtain i g2 where d2:
    "draw (replicate (length branch_lengths) (1 / real (length branch_lengths))) g1 = (i, g2)"
    by (cases "draw (replicate (length branch_lengths) (1 / real (length branch_lengths))) g1")
  obtain b g3 where d3: "draw (P q (branch_lengths ! i) ! a) g2 = (b, g3)"
    by (cases "draw (P q (branch_lengths ! i) ! a) g2")
  have "frequencies q \<noteq> []"
    using assms(3,4) by auto
  with assms(1) have "fst (draw (frequencies q) g) < length (frequencies q)"
    unfolding draws_in_range_def by blast
  then have a: "a < alphabet_size q"
    using d1 assms(3) by simp
  have "replicate (length branch_lengths) (1 / real (length branch_lengths)) \<noteq> []"
    using assms(5) by simp
  with assms(1) have
    "fst (draw (replicate (length branch_lengths) (1 / real (length branch_lengths))) g1)
      < length (replicate (length branch_lengths) (1 / real (length branch_lengths)))"
    unfolding draws_in_range_def by blast
  then have i: "i < length branch_lengths"
    using d2 by simp
  have sq: "square (alphabet_size q) (P q (branch_lengths ! i))"
    using assms(2) by blast
  then have len: "length (P q (branch_lengths ! i)) = alphabet_size q"
    and row: "length (P q (branch_lengths ! i) ! a) = alphabet_size q"
    using a by (auto simp: square_def list_all_length)
  then have "P q (branch_lengths ! i) ! a \<noteq> []"
    using assms(4) by auto
  with assms(1) have
    "fst (draw (P q (branch_lengths ! i) ! a) g2) < length (P q (branch_lengths ! i) ! a)"
    unfolding draws_in_range_def by blast
  then have b: "b < alphabet_size q"
    using d3 row by simp
  have "sample_site draw P q branch_lengths g = Inr ((a, b), g3)"
    using d1 d2 d3 i a len by (simp add: sample_site_def)
  with a b show ?thesis by blast
qed

lemma sample_sites_ok:
  assumes "draws_in_range draw"
    and "\<forall>t. square (alphabet_size q) (P q t)"
    and "length (frequencies q) = alphabet_size q" and "0 < alphabet_size q"
    and "branch_lengths \<noteq> []"
  shows "square (alphabet_size q) N \<Longrightarrow>
         \<exists>N'. sample_sites draw P q branch_lengths n g N = Inr N'
           \<and> square (alphabet_size q) N' \<and> count_total N' = count_total N + n"
proof (induction n arbitrary: g N)
  case 0
  then show ?case by simp
next
  case (Suc n)
  obtain a b g' where site: "sample_site draw P q branch_lengths g = Inr ((a, b), g')"
    and ab: "a < alphabet_size q" "b < alphabet_size q"
    using sample_site_ok [of draw q P branch_lengths g, OF assms] by blast
  obtain N1 where t: "tally N a b = Inr N1" and sq: "square (alphabet_size q) N1"
    and tot: "count_total N1 = count_total N + 1"
    using tally_ok [OF Suc.prems ab] by blast
  obtain N' where "sample_sites draw P q branch_lengths n g' N1 = Inr N'"
    and "square (alphabet_size q) N'" and "count_total N' = count_total N1 + n"
    using Suc.IH [OF sq, of g'] by blast
  with site t tot show ?case by simp
qed

lemma total_zero_counts: "count_total (zero_counts n) = 0"
  by (simp add: count_total_def zero_counts_def)

lemma square_zero_counts: "square n (zero_counts n)"
  by (simp add: square_def zero_counts_def list_all_length)

lemma counter_draw_in_range: "draws_in_range counter_draw"
  by (simp add: draws_in_range_def counter_draw_def)

text \<open>
  Claim C3: \<^verbatim>\<open>sample_count_matrix(rate_matrix, n, branch_lengths)\<close> returns a
  \<open>k\<close> by \<open>k\<close> matrix of natural numbers whose entries sum to \<open>n\<close>, for every valid
  rate matrix, every \<open>n\<close> and every non-empty sequence of branch lengths, whatever the
  seed; the draws yield symbols of the alphabet and the transition matrix is \<open>k\<close> by
  \<open>k\<close>. The witness is the scenario of the test: the model instantiated under the name
  \<^verbatim>\<open>WAG\<close>, \<open>n = 100\<close> and the single branch length 1.
\<close>

theorem sample_count_matrix_total:
  assumes "draws_in_range draw"
    and "\<forall>t. square (alphabet_size q) (transition_matrix q t)"
    and "valid_parameters q"
    and "branch_lengths \<noteq> []"
  shows "\<exists>N. sample_count_matrix draw transition_matrix seed q n branch_lengths = Inr N
           \<and> square (alphabet_size q) N
           \<and> sum_list (map sum_list N) = n"
proof -
  have len: "length (frequencies q) = alphabet_size q"
    using assms(3) by (simp add: valid_parameters_def)
  have "frequencies q \<noteq> []"
    using assms(3) by (auto simp: valid_parameters_def)
  with len have pos: "0 < alphabet_size q"
    by (metis length_greater_0_conv)
  obtain N where "sample_sites draw transition_matrix q branch_lengths n seed
        (zero_counts (alphabet_size q)) = Inr N"
    and "square (alphabet_size q) N"
    and "count_total N = count_total (zero_counts (alphabet_size q)) + n"
    using sample_sites_ok [of draw q transition_matrix branch_lengths
        "zero_counts (alphabet_size q)" n seed,
        OF assms(1,2) len pos assms(4) square_zero_counts] by blast
  moreover from this have "sum_list (map sum_list N) = n"
    by (simp add: total_zero_counts) (simp add: count_total_def)
  ultimately show ?thesis
    by (simp add: sample_count_matrix_def)
qed

theorem sample_count_matrix_total_witness:
  "instantiate uniform_registry ''WAG'' = Inr (uniform_model ''WAG'') \<and>
   (\<exists>N. sample_count_matrix counter_draw stationary_rows 0 (uniform_model ''WAG'') 100 [1] = Inr N
      \<and> square 20 N \<and> sum_list (map sum_list N) = 100)"
proof -
  have "instantiate uniform_registry ''WAG'' = Inr (uniform_model ''WAG'')"
    by (simp add: instantiate_def uniform_registry_def)
  moreover have "\<forall>t. square (alphabet_size (uniform_model ''WAG''))
      (stationary_rows (uniform_model ''WAG'') t)"
    by (simp add: square_def stationary_rows_def uniform_model_def list_all_length)
  moreover have "valid_parameters (uniform_model ''WAG'')"
    by (simp add: valid_parameters_def uniform_model_def list_all_length)
      (rule exI [of _ 0], simp)
  moreover have "[1 :: real] \<noteq> []"
    by simp
  moreover have "alphabet_size (uniform_model ''WAG'') = 20"
    by (simp add: uniform_model_def)
  ultimately show ?thesis
    using sample_count_matrix_total [OF counter_draw_in_range, of "uniform_model ''WAG''"
        stationary_rows "[1]" 0 100]
    by simp
qed

end
